theory Spec2Isabelle
  imports Main "HOL-Library.Sublist"
begin

section \<open>JavaScript values used by the generation pipeline\<close>

text \<open>
  An awaited promise either resolves with a value or rejects with a thrown error.
  The errors thrown in this code are \<open>Error\<close> objects; only their \<open>message\<close> is read,
  and it may be missing.
\<close>

datatype js_error = Error (message: "string option")

datatype 'a outcome = Resolved 'a | Rejected js_error

text \<open>
  Truthiness of an optional string: \<open>undefined\<close> and the empty string are falsy.
  \<open>or_else a b\<close> is \<open>a || b\<close> for an optional string \<open>a\<close> and a string \<open>b\<close>.
\<close>

fun truthy :: "string option \<Rightarrow> bool" where
  "truthy None = False"
| "truthy (Some s) = (s \<noteq> [])"

fun or_else :: "string option \<Rightarrow> string \<Rightarrow> string" where
  "or_else None d = d"
| "or_else (Some s) d = (if s = [] then d else s)"

text \<open>Decimal rendering of a non-negative integer, as \<open>Date.now()\<close> prints in a template.\<close>

definition digit_char :: "nat \<Rightarrow> char" where
  "digit_char d = ''0123456789'' ! d"

fun show_nat :: "nat \<Rightarrow> string" where
  "show_nat n = (if n < 10 then [digit_char n] else show_nat (n div 10) @ [digit_char (n mod 10)])"

declare show_nat.simps [simp del]

section \<open>services/openai: options, results and the AIService\<close>

datatype content_type = Image_t | Video_t | Banner_t | Social_t

datatype style = Realistic | Surreal | Anime | Futuristic

datatype platform = Facebook | Instagram | Youtube | Google_ads | Twitter | Linkedin

text \<open>
  \<open>GenerationForm\<close> is the form of the Generator page; \<open>GenerationOptions\<close> has the same
  four fields and two optional ones, which no operation reads.
\<close>

record brand_kit =
  primaryColor :: "string option"
  secondaryColor :: "string option"
  fontFamily :: "string option"

record GenerationForm =
  prompt :: string
  style :: style
  platform :: platform
  type :: content_type

record GenerationOptions = GenerationForm +
  dimensions :: "(int \<times> int) option"
  brandKit :: "brand_kit option"

record GenerationResult =
  success :: bool
  url :: "string option"
  error :: "string option"
  result_id :: "string option"

fun stylePrompts :: "style \<Rightarrow> string" where
  "stylePrompts Realistic = ''photorealistic, high detail, professional photography''"
| "stylePrompts Surreal = ''surreal, dreamlike, imaginative, artistic''"
| "stylePrompts Anime = ''anime style, Japanese animation, vibrant colors''"
| "stylePrompts Futuristic = ''futuristic, sci-fi, cyberpunk, advanced technology''"

fun platformPrompts :: "platform \<Rightarrow> string" where
  "platformPrompts Facebook = ''Facebook post optimized, engaging, social media friendly''"
| "platformPrompts Instagram = ''Instagram style, square format, visually appealing''"
| "platformPrompts Youtube = ''YouTube thumbnail, eye-catching, high contrast''"
| "platformPrompts Google_ads = ''Google Ads banner, professional, conversion optimized''"
| "platformPrompts Twitter = ''Twitter card, horizontal format, attention grabbing''"
| "platformPrompts Linkedin = ''LinkedIn professional, business oriented, clean design''"

definition marketing_suffix :: string where
  "marketing_suffix = ''Professional marketing content, high quality, brand appropriate.''"

text \<open>\<open>AIService.optimizePrompt\<close>: one template literal, no validation of its arguments.\<close>

definition optimizePrompt :: "string \<Rightarrow> ('a GenerationOptions_scheme) \<Rightarrow> string" where
  "optimizePrompt p options =
     p @ ''. Style: '' @ stylePrompts (style options) @ ''. Platform: ''
       @ platformPrompts (platform options) @ ''. '' @ marketing_suffix"

text \<open>
  The image-generation capability answers with a list of artifacts (\<open>response.data\<close>), each
  with an optional \<open>url\<close> and an optional \<open>revised_prompt\<close>, or the call rejects.
\<close>

datatype image_obj = Image_obj (img_url: "string option") (revised_prompt: "string option")

record images_response =
  data :: "image_obj list"

text \<open>
  The effects of a flow, in the order they happen: calls to the external collaborators,
  writes to the record store, and what the page shows.
\<close>

record content_item =
  ci_user_id :: string
  ci_title :: string
  ci_description :: string
  ci_prompt :: string
  ci_type :: content_type
  ci_platform :: platform
  ci_style :: style
  ci_output_url :: string
  ci_created_at :: string

datatype event =
    Images_generate string string string string nat
  | Delay nat
  | Console_error string
  | Alert string
  | SetIsGenerating bool
  | SetGeneratedImage "string option"
  | Insert_content_items content_item
  | Update_subscriptions string int

text \<open>\<open>response.data[0]?.url\<close> and \<open>response.data[0]?.revised_prompt\<close>.\<close>

fun first_url :: "image_obj list \<Rightarrow> string option" where
  "first_url [] = None"
| "first_url (x # xs) = img_url x"

fun first_revised_prompt :: "image_obj list \<Rightarrow> string option" where
  "first_revised_prompt [] = None"
| "first_revised_prompt (x # xs) = revised_prompt x"

text \<open>
  \<open>AIService.generateImage\<close>. \<open>reply\<close> is what \<open>openai.images.generate\<close> settles with and
  \<open>now\<close> what \<open>Date.now()\<close> reads. The body of the \<open>try\<close> block comes first, then the
  function with its \<open>catch\<close>.
\<close>

definition generateImage_try ::
  "images_response outcome \<Rightarrow> nat \<Rightarrow> ('a GenerationOptions_scheme) \<Rightarrow> GenerationResult outcome" where
  "generateImage_try reply now options =
     (case reply of
        Rejected e \<Rightarrow> Rejected e
      | Resolved response \<Rightarrow>
          (let imageUrl = first_url (data response) in
           if \<not> truthy imageUrl
           then Rejected (Error (Some ''No image URL returned from OpenAI''))
           else Resolved \<lparr>success = True, url = imageUrl, error = None,
                  result_id = Some (or_else (first_revised_prompt (data response)) (show_nat now))\<rparr>))"

definition generateImage ::
  "images_response outcome \<Rightarrow> nat \<Rightarrow> ('a GenerationOptions_scheme)
     \<Rightarrow> event list \<times> GenerationResult outcome" where
  "generateImage reply now options =
     (let optimizedPrompt = optimizePrompt (prompt options) options;
          call = Images_generate ''dall-e-3'' optimizedPrompt ''1024x1024'' ''standard'' 1
      in case generateImage_try reply now options of
           Resolved r \<Rightarrow> ([call], Resolved r)
         | Rejected e \<Rightarrow>
             ([call, Console_error ''OpenAI Image Generation Error:''],
              Resolved \<lparr>success = False, url = None,
                error = Some (or_else (message e) ''Failed to generate image''),
                result_id = None\<rparr>))"

text \<open>
  \<open>AIService.generateVideo\<close>: a three-second timer that always resolves, then a mock
  result. \<open>now_url\<close> and \<open>now_id\<close> are the two readings of \<open>Date.now()\<close>.
\<close>

definition generateVideo_try ::
  "nat \<Rightarrow> nat \<Rightarrow> ('a GenerationOptions_scheme) \<Rightarrow> GenerationResult outcome" where
  "generateVideo_try now_url now_id options =
     Resolved \<lparr>success = True,
       url = Some (''https://example.com/video-placeholder-'' @ show_nat now_url @ ''.mp4''),
       error = None,
       result_id = Some (''video-'' @ show_nat now_id)\<rparr>"

definition generateVideo ::
  "nat \<Rightarrow> nat \<Rightarrow> ('a GenerationOptions_scheme) \<Rightarrow> event list \<times> GenerationResult outcome" where
  "generateVideo now_url now_id options =
     (case generateVideo_try now_url now_id options of
        Resolved r \<Rightarrow> ([Delay 3000], Resolved r)
      | Rejected e \<Rightarrow>
          ([Delay 3000],
           Resolved \<lparr>success = False, url = None,
             error = Some (or_else (message e) ''Video generation is currently in development''),
             result_id = None\<rparr>))"

section \<open>The record store\<close>

text \<open>
  The two tables the Generator page writes. Of a subscription row only the owner and the
  two quota columns matter here.
\<close>

record User =
  uid :: string
  email :: string
  full_name :: string

record Subscription =
  user_id :: string
  usage_limit :: int
  current_usage :: int

record db =
  content_items :: "content_item list"
  subscriptions :: "Subscription list"

text \<open>
  Modelled from the spec: the record store, an external collaborator whose code is not
  in the repository (\<open>insert(collection, record)\<close> and \<open>update(collection, id, partial)\<close>,
  each answering ok or an error). A write settles with \<open>Resolved None\<close> when it was
  applied, with \<open>Resolved (Some msg)\<close> when the store reports an error as data, and with
  \<open>Rejected e\<close> when the call itself throws; only an applied write changes the tables.
  \<open>from('content_items').insert(row)\<close> appends the row;
  \<open>from('subscriptions').update({current_usage: v}).eq('user_id', u)\<close> sets the column in
  every row of that user.
\<close>

definition db_insert :: "string option outcome \<Rightarrow> content_item \<Rightarrow> db \<Rightarrow> db" where
  "db_insert reply row d =
     (if reply = Resolved None then d\<lparr>content_items := content_items d @ [row]\<rparr> else d)"

definition db_update_usage :: "string option outcome \<Rightarrow> string \<Rightarrow> int \<Rightarrow> db \<Rightarrow> db" where
  "db_update_usage reply u v d =
     (if reply = Resolved None
      then d\<lparr>subscriptions :=
               map (\<lambda>s. if user_id s = u then s\<lparr>current_usage := v\<rparr> else s) (subscriptions d)\<rparr>
      else d)"

section \<open>pages/authenticated/Generator: onSubmit\<close>

text \<open>
  What the handler closes over: the user and the subscription that \<open>useAuth()\<close> gave at the
  last render, and the page's \<open>optimizedPrompt\<close> state.
\<close>

record props =
  user :: "User option"
  subscription :: "Subscription option"
  optimizedPrompt :: string

text \<open>What the outside world answers during one flow.\<close>

record env =
  images_reply :: "images_response outcome"
  now_1 :: nat
  now_2 :: nat
  iso_now :: string
  insert_reply :: "string option outcome"
  update_reply :: "string option outcome"

fun type_name :: "content_type \<Rightarrow> string" where
  "type_name Image_t = ''image''"
| "type_name Video_t = ''video''"
| "type_name Banner_t = ''banner''"
| "type_name Social_t = ''social''"

text \<open>
  The usage check:
  \<open>subscription && subscription.current_usage >= subscription.usage_limit\<close>.
\<close>

definition quota_reached :: "Subscription option \<Rightarrow> bool" where
  "quota_reached sub =
     (case sub of None \<Rightarrow> False | Some s \<Rightarrow> current_usage s \<ge> usage_limit s)"

text \<open>The value written back: \<open>(subscription?.current_usage || 0) + 1\<close>.\<close>

definition next_usage :: "Subscription option \<Rightarrow> int" where
  "next_usage sub =
     (case sub of
        None \<Rightarrow> 0
      | Some s \<Rightarrow> (if current_usage s = 0 then 0 else current_usage s)) + 1"

definition limit_message :: string where
  "limit_message =
     ''You have reached your generation limit for this month. Please upgrade your plan.''"

text \<open>The two-way branch on \<open>data.type\<close>.\<close>

definition dispatch ::
  "env \<Rightarrow> ('a GenerationOptions_scheme) \<Rightarrow> event list \<times> GenerationResult outcome" where
  "dispatch e options =
     (if type options = Video_t
      then generateVideo (now_1 e) (now_2 e) options
      else generateImage (images_reply e) (now_1 e) options)"

definition make_options :: "props \<Rightarrow> GenerationForm \<Rightarrow> GenerationOptions" where
  "make_options p form =
     \<lparr>prompt = or_else (Some (optimizedPrompt p)) (prompt form),
      style = style form, platform = platform form, type = type form,
      dimensions = None, brandKit = None\<rparr>"

definition make_row :: "props \<Rightarrow> User \<Rightarrow> GenerationForm \<Rightarrow> string \<Rightarrow> string \<Rightarrow> content_item" where
  "make_row p u form out created =
     \<lparr>ci_user_id = uid u,
      ci_title = ''Generated '' @ type_name (type form),
      ci_description = prompt form,
      ci_prompt = or_else (Some (optimizedPrompt p)) (prompt form),
      ci_type = type form, ci_platform = platform form, ci_style = style form,
      ci_output_url = out, ci_created_at = created\<rparr>"

text \<open>
  The success branch, \<open>result.success && result.url\<close>: show the artifact, insert the
  content item, then update the usage. A call that rejects ends the branch there.
\<close>

definition on_success ::
  "env \<Rightarrow> props \<Rightarrow> User \<Rightarrow> GenerationForm \<Rightarrow> string \<Rightarrow> db \<Rightarrow> event list \<times> db \<times> unit outcome" where
  "on_success e p u form out d =
     (let row = make_row p u form out (iso_now e);
          shown = [SetGeneratedImage (Some out), Insert_content_items row]
      in case insert_reply e of
           Rejected x \<Rightarrow> (shown, d, Rejected x)
         | Resolved err \<Rightarrow>
             (let d1 = db_insert (insert_reply e) row d;
                  logged = (case err of None \<Rightarrow> [] | Some m \<Rightarrow> [Console_error ''Error saving content:'']);
                  v = next_usage (subscription p);
                  evs = shown @ logged @ [Update_subscriptions (uid u) v]
              in case update_reply e of
                   Rejected x \<Rightarrow> (evs, d1, Rejected x)
                 | Resolved r \<Rightarrow> (evs, db_update_usage (update_reply e) (uid u) v d1, Resolved ())))"

text \<open>The body of the \<open>try\<close> block of \<open>onSubmit\<close>.\<close>

definition onSubmit_try ::
  "env \<Rightarrow> props \<Rightarrow> User \<Rightarrow> GenerationForm \<Rightarrow> db \<Rightarrow> event list \<times> db \<times> unit outcome" where
  "onSubmit_try e p u form d =
     (case dispatch e (make_options p form) of
        (evs, Rejected x) \<Rightarrow> (evs, d, Rejected x)
      | (evs, Resolved result) \<Rightarrow>
          (let failed = (evs @ [Alert (or_else (error result) ''Generation failed'')], d, Resolved ())
           in case url result of
                None \<Rightarrow> failed
              | Some out \<Rightarrow>
                  if success result \<and> out \<noteq> []
                  then (case on_success e p u form out d of
                          (evs', d', r) \<Rightarrow> (evs @ evs', d', r))
                  else failed))"

text \<open>
  \<open>onSubmit\<close>: no user, no flow; the usage check; then the \<open>try\<close> block with its \<open>catch\<close>
  and \<open>finally\<close>. It returns the effects in order and the store afterwards.
\<close>

definition onSubmit :: "env \<Rightarrow> props \<Rightarrow> GenerationForm \<Rightarrow> db \<Rightarrow> event list \<times> db" where
  "onSubmit e p form d =
     (case user p of
        None \<Rightarrow> ([], d)
      | Some u \<Rightarrow>
          if quota_reached (subscription p) then ([Alert limit_message], d)
          else (case onSubmit_try e p u form d of
                  (evs, d', r) \<Rightarrow>
                    ([SetIsGenerating True, SetGeneratedImage None] @ evs
                       @ (case r of
                            Resolved _ \<Rightarrow> []
                          | Rejected x \<Rightarrow> [Console_error ''Generation error:'',
                                            Alert ''An error occurred during generation''])
                       @ [SetIsGenerating False],
                     d')))"

section \<open>Reading a trace\<close>

text \<open>
  A dispatch shows in the trace as the provider call of the image path or as the timer of
  the video path; the two store writes are the insert and the update.
\<close>

fun is_generation_call :: "event \<Rightarrow> bool" where
  "is_generation_call (Images_generate m p s q n) = True"
| "is_generation_call (Delay ms) = True"
| "is_generation_call _ = False"

fun is_content_insert :: "event \<Rightarrow> bool" where
  "is_content_insert (Insert_content_items r) = True"
| "is_content_insert _ = False"

fun is_usage_update :: "event \<Rightarrow> bool" where
  "is_usage_update (Update_subscriptions u v) = True"
| "is_usage_update _ = False"

text \<open>Some effect satisfying \<open>P\<close> happens strictly earlier than some effect satisfying \<open>Q\<close>.\<close>

fun occurs_before :: "('a \<Rightarrow> bool) \<Rightarrow> ('a \<Rightarrow> bool) \<Rightarrow> 'a list \<Rightarrow> bool" where
  "occurs_before P Q [] = False"
| "occurs_before P Q (x # xs) = ((P x \<and> list_ex Q xs) \<or> occurs_before P Q xs)"

section \<open>Example inputs\<close>

definition example_user :: User where
  "example_user = \<lparr>uid = ''u1'', email = ''a@b.c'', full_name = ''A''\<rparr>"

definition example_env :: env where
  "example_env =
     \<lparr>images_reply = Resolved \<lparr>data = [Image_obj (Some ''https://img/1.png'') None]\<rparr>,
      now_1 = 1700, now_2 = 1701, iso_now = ''2024-01-01T00:00:00.000Z'',
      insert_reply = Resolved None, update_reply = Resolved None\<rparr>"

definition example_form :: GenerationForm where
  "example_form =
     \<lparr>prompt = ''A modern tech startup banner with gradient'',
      style = Realistic, platform = Instagram, type = Image_t\<rparr>"

definition example_db :: db where
  "example_db =
     \<lparr>content_items = [],
      subscriptions = [\<lparr>user_id = ''u1'', usage_limit = 10, current_usage = 3\<rparr>]\<rparr>"

definition example_props :: props where
  "example_props =
     \<lparr>user = Some example_user,
      subscription = Some \<lparr>user_id = ''u1'', usage_limit = 10, current_usage = 3\<rparr>,
      optimizedPrompt = ''''\<rparr>"

section \<open>Every dispatch makes its call\<close>

lemma generateImage_calls: "list_ex is_generation_call (fst (generateImage r n opts))"
  by (simp add: generateImage_def Let_def split: outcome.split)

lemma generateVideo_calls: "list_ex is_generation_call (fst (generateVideo a b opts))"
  by (simp add: generateVideo_def generateVideo_try_def)

lemma dispatch_calls: "list_ex is_generation_call (fst (dispatch e opts))"
  by (simp add: dispatch_def generateImage_calls generateVideo_calls)

lemma onSubmit_try_calls: "list_ex is_generation_call (fst (onSubmit_try e p u form d))"
  using dispatch_calls [of e "make_options p form"]
  by (auto simp add: onSubmit_try_def Let_def split: prod.split outcome.split option.split)

section \<open>The quota guard\<close>

text \<open>
  C1. With a user signed in and a subscription \<open>q\<close> at hand, the flow makes a generation
  call exactly when \<open>current_usage q < usage_limit q\<close>. When
  \<open>current_usage q \<ge> usage_limit q\<close> the only effect is the limit alert and the store is
  untouched. The boundary \<open>current_usage = usage_limit - 1\<close> is let through.
\<close>

theorem quota_guard_refuses_iff_limit_reached:
  "(list_ex is_generation_call
      (fst (onSubmit e \<lparr>user = Some u, subscription = Some q, optimizedPrompt = op\<rparr> form d))
      \<longleftrightarrow> current_usage q < usage_limit q)
   \<and> (current_usage q \<ge> usage_limit q \<longrightarrow>
        onSubmit e \<lparr>user = Some u, subscription = Some q, optimizedPrompt = op\<rparr> form d
          = ([Alert limit_message], d))
   \<and> \<not> quota_reached (Some (q\<lparr>current_usage := usage_limit q - 1\<rparr>))"
  using onSubmit_try_calls
    [of e "\<lparr>user = Some u, subscription = Some q, optimizedPrompt = op\<rparr>" u form d]
  by (auto simp add: onSubmit_def quota_reached_def split: prod.split)

theorem quota_guard_refuses_iff_limit_reached_witness:
  "usage_limit \<lparr>user_id = ''u1'', usage_limit = 10, current_usage = 10\<rparr>
     \<le> current_usage \<lparr>user_id = ''u1'', usage_limit = 10, current_usage = 10\<rparr>
   \<and> onSubmit example_env
        \<lparr>user = Some example_user,
         subscription = Some \<lparr>user_id = ''u1'', usage_limit = 10, current_usage = 10\<rparr>,
         optimizedPrompt = ''''\<rparr> example_form example_db
       = ([Alert limit_message], example_db)
   \<and> \<not> list_ex is_generation_call
        (fst (onSubmit example_env
           \<lparr>user = Some example_user,
            subscription = Some \<lparr>user_id = ''u1'', usage_limit = 10, current_usage = 10\<rparr>,
            optimizedPrompt = ''''\<rparr> example_form example_db))"
  using quota_guard_refuses_iff_limit_reached
    [of example_env example_user "\<lparr>user_id = ''u1'', usage_limit = 10, current_usage = 10\<rparr>"
        "''''" example_form example_db]
  by simp

section \<open>The flow that succeeds\<close>


lemma next_usage_None: "next_usage None = 1"
  by (simp add: next_usage_def)

lemma on_success_resolved:
  assumes "insert_reply e = Resolved err" "update_reply e = Resolved x"
  shows "on_success e p u form out d =
     ([SetGeneratedImage (Some out), Insert_content_items (make_row p u form out (iso_now e))]
        @ (case err of None \<Rightarrow> [] | Some m \<Rightarrow> [Console_error ''Error saving content:''])
        @ [Update_subscriptions (uid u) (next_usage (subscription p))],
      db_update_usage (Resolved x) (uid u) (next_usage (subscription p))
        (db_insert (Resolved err) (make_row p u form out (iso_now e)) d),
      Resolved ())"
  using assms by (simp add: on_success_def Let_def)

lemma onSubmit_success:
  assumes "user p = Some u" "\<not> quota_reached (subscription p)"
    "dispatch e (make_options p form) = (evs, Resolved r)"
    "success r" "url r = Some out" "out \<noteq> []"
    "insert_reply e = Resolved err" "update_reply e = Resolved x"
  shows "onSubmit e p form d =
     ([SetIsGenerating True, SetGeneratedImage None] @ evs
        @ [SetGeneratedImage (Some out), Insert_content_items (make_row p u form out (iso_now e))]
        @ (case err of None \<Rightarrow> [] | Some m \<Rightarrow> [Console_error ''Error saving content:''])
        @ [Update_subscriptions (uid u) (next_usage (subscription p)), SetIsGenerating False],
      db_update_usage (Resolved x) (uid u) (next_usage (subscription p))
        (db_insert (Resolved err) (make_row p u form out (iso_now e)) d))"
  using assms by (simp add: onSubmit_def onSubmit_try_def on_success_resolved Let_def)

lemma example_dispatch:
  "dispatch example_env (make_options example_props example_form) =
     ([Images_generate ''dall-e-3''
         ''A modern tech startup banner with gradient. Style: photorealistic, high detail, professional photography. Platform: Instagram style, square format, visually appealing. Professional marketing content, high quality, brand appropriate.''
         ''1024x1024'' ''standard'' 1],
      Resolved \<lparr>success = True, url = Some ''https://img/1.png'', error = None,
        result_id = Some ''1700''\<rparr>)"
  by code_simp

section \<open>The order of the effects\<close>

lemma occurs_before_append:
  "occurs_before P Q (xs @ ys) \<longleftrightarrow>
     occurs_before P Q xs \<or> (list_ex P xs \<and> list_ex Q ys) \<or> occurs_before P Q ys"
  by (induction xs) auto

lemma occurs_before_no_first: "\<not> list_ex P xs \<Longrightarrow> \<not> occurs_before P Q xs"
  by (induction xs) auto

lemma occurs_before_no_second: "\<not> list_ex Q xs \<Longrightarrow> \<not> occurs_before P Q xs"
  by (induction xs) auto

lemma dispatch_no_store_write:
  "\<not> list_ex is_content_insert (fst (dispatch e opts))
   \<and> \<not> list_ex is_usage_update (fst (dispatch e opts))"
  by (simp add: dispatch_def generateImage_def generateVideo_def generateVideo_try_def Let_def
      split: outcome.split)

lemma on_success_order:
  "\<not> occurs_before is_usage_update is_content_insert (fst (on_success e p u form out d))
   \<and> \<not> list_ex is_generation_call (fst (on_success e p u form out d))"
  by (simp add: on_success_def Let_def split: outcome.split option.split)

lemma onSubmit_try_order:
  "\<not> occurs_before is_usage_update is_content_insert (fst (onSubmit_try e p u form d))
   \<and> \<not> occurs_before is_content_insert is_generation_call (fst (onSubmit_try e p u form d))
   \<and> \<not> occurs_before is_usage_update is_generation_call (fst (onSubmit_try e p u form d))"
  by (simp add: onSubmit_try_def Let_def case_prod_beta occurs_before_append
        occurs_before_no_first occurs_before_no_second dispatch_no_store_write on_success_order
      split: outcome.split option.split)

text \<open>
  C2, as the spec has it: the usage update comes before the content-record write. In the
  flow below the insert is the fifth effect and the update the sixth, and no update
  comes before an insert.
\<close>

theorem usage_update_before_insert_counterexample:
  "fst (onSubmit example_env example_props example_form example_db) =
     [SetIsGenerating True, SetGeneratedImage None,
      Images_generate ''dall-e-3''
        ''A modern tech startup banner with gradient. Style: photorealistic, high detail, professional photography. Platform: Instagram style, square format, visually appealing. Professional marketing content, high quality, brand appropriate.''
        ''1024x1024'' ''standard'' 1,
      SetGeneratedImage (Some ''https://img/1.png''),
      Insert_content_items
        \<lparr>ci_user_id = ''u1'', ci_title = ''Generated image'',
         ci_description = ''A modern tech startup banner with gradient'',
         ci_prompt = ''A modern tech startup banner with gradient'',
         ci_type = Image_t, ci_platform = Instagram, ci_style = Realistic,
         ci_output_url = ''https://img/1.png'', ci_created_at = ''2024-01-01T00:00:00.000Z''\<rparr>,
      Update_subscriptions ''u1'' 4,
      SetIsGenerating False]
   \<and> \<not> occurs_before is_usage_update is_content_insert
         (fst (onSubmit example_env example_props example_form example_db))"
  by code_simp

text \<open>
  C2, amended: within one flow the effects come in the order usage check, generation
  dispatch, content-record insert, usage update. A flow in which the dispatch succeeds
  and both writes settle has exactly the effects listed, in that order; a refused flow
  makes no generation call; and in no flow at all does a store write come before the
  generation call or the usage update before the insert.
\<close>

theorem effects_in_order:
  "(user p = Some u \<and> \<not> quota_reached (subscription p)
      \<and> dispatch e (make_options p form) = (evs, Resolved r)
      \<and> success r \<and> url r = Some out \<and> out \<noteq> []
      \<and> insert_reply e = Resolved err \<and> update_reply e = Resolved x
    \<longrightarrow> fst (onSubmit e p form d) =
         [SetIsGenerating True, SetGeneratedImage None] @ evs
         @ [SetGeneratedImage (Some out),
            Insert_content_items (make_row p u form out (iso_now e))]
         @ (case err of None \<Rightarrow> [] | Some m \<Rightarrow> [Console_error ''Error saving content:''])
         @ [Update_subscriptions (uid u) (next_usage (subscription p)), SetIsGenerating False])
   \<and> (quota_reached (subscription p) \<longrightarrow>
        \<not> list_ex is_generation_call (fst (onSubmit e p form d)))
   \<and> \<not> occurs_before is_content_insert is_generation_call (fst (onSubmit e p form d))
   \<and> \<not> occurs_before is_usage_update is_generation_call (fst (onSubmit e p form d))
   \<and> \<not> occurs_before is_usage_update is_content_insert (fst (onSubmit e p form d))"
proof -
  have ord: "\<not> occurs_before is_content_insert is_generation_call (fst (onSubmit e p form d))
     \<and> \<not> occurs_before is_usage_update is_generation_call (fst (onSubmit e p form d))
     \<and> \<not> occurs_before is_usage_update is_content_insert (fst (onSubmit e p form d))"
    by (simp add: onSubmit_def case_prod_beta occurs_before_append onSubmit_try_order
          split: option.split outcome.split)
  have refused: "quota_reached (subscription p) \<longrightarrow>
        \<not> list_ex is_generation_call (fst (onSubmit e p form d))"
    by (simp add: onSubmit_def split: option.split)
  show ?thesis
    using ord refused onSubmit_success [of p u e form evs r out err x d] by simp
qed

theorem effects_in_order_witness:
  "user example_props = Some example_user \<and> \<not> quota_reached (subscription example_props)
   \<and> dispatch example_env (make_options example_props example_form) =
       ([Images_generate ''dall-e-3''
           ''A modern tech startup banner with gradient. Style: photorealistic, high detail, professional photography. Platform: Instagram style, square format, visually appealing. Professional marketing content, high quality, brand appropriate.''
           ''1024x1024'' ''standard'' 1],
        Resolved \<lparr>success = True, url = Some ''https://img/1.png'', error = None,
          result_id = Some ''1700''\<rparr>)
   \<and> insert_reply example_env = Resolved None \<and> update_reply example_env = Resolved None
   \<and> fst (onSubmit example_env example_props example_form example_db) =
     [SetIsGenerating True, SetGeneratedImage None,
      Images_generate ''dall-e-3''
        ''A modern tech startup banner with gradient. Style: photorealistic, high detail, professional photography. Platform: Instagram style, square format, visually appealing. Professional marketing content, high quality, brand appropriate.''
        ''1024x1024'' ''standard'' 1,
      SetGeneratedImage (Some ''https://img/1.png''),
      Insert_content_items
        (make_row example_props example_user example_form ''https://img/1.png''
           (iso_now example_env)),
      Update_subscriptions (uid example_user) (next_usage (subscription example_props)),
      SetIsGenerating False]
   \<and> quota_reached (subscription (example_props
         \<lparr>subscription := Some \<lparr>user_id = ''u1'', usage_limit = 10, current_usage = 10\<rparr>\<rparr>))
   \<and> \<not> list_ex is_generation_call
         (fst (onSubmit example_env
            (example_props
               \<lparr>subscription := Some \<lparr>user_id = ''u1'', usage_limit = 10, current_usage = 10\<rparr>\<rparr>)
            example_form example_db))"
proof -
  have h: "user example_props = Some example_user \<and> \<not> quota_reached (subscription example_props)
     \<and> insert_reply example_env = Resolved None \<and> update_reply example_env = Resolved None"
    by (simp add: example_props_def example_env_def quota_reached_def)
  have q: "quota_reached (subscription (example_props
         \<lparr>subscription := Some \<lparr>user_id = ''u1'', usage_limit = 10, current_usage = 10\<rparr>\<rparr>))"
    by (simp add: quota_reached_def)
  have passed: "fst (onSubmit example_env example_props example_form example_db) =
     [SetIsGenerating True, SetGeneratedImage None,
      Images_generate ''dall-e-3''
        ''A modern tech startup banner with gradient. Style: photorealistic, high detail, professional photography. Platform: Instagram style, square format, visually appealing. Professional marketing content, high quality, brand appropriate.''
        ''1024x1024'' ''standard'' 1,
      SetGeneratedImage (Some ''https://img/1.png''),
      Insert_content_items
        (make_row example_props example_user example_form ''https://img/1.png''
           (iso_now example_env)),
      Update_subscriptions (uid example_user) (next_usage (subscription example_props)),
      SetIsGenerating False]"
    using h example_dispatch
      effects_in_order [of example_props example_user example_env example_form
        "[Images_generate ''dall-e-3''
            ''A modern tech startup banner with gradient. Style: photorealistic, high detail, professional photography. Platform: Instagram style, square format, visually appealing. Professional marketing content, high quality, brand appropriate.''
            ''1024x1024'' ''standard'' 1]"
        "\<lparr>success = True, url = Some ''https://img/1.png'', error = None,
           result_id = Some ''1700''\<rparr>"
        "''https://img/1.png''" None None example_db]
    by simp
  have refused: "\<not> list_ex is_generation_call
         (fst (onSubmit example_env
            (example_props
               \<lparr>subscription := Some \<lparr>user_id = ''u1'', usage_limit = 10, current_usage = 10\<rparr>\<rparr>)
            example_form example_db))"
    using q effects_in_order
      [of "example_props
             \<lparr>subscription := Some \<lparr>user_id = ''u1'', usage_limit = 10, current_usage = 10\<rparr>\<rparr>"
          example_user example_env example_form "[]"
          "\<lparr>success = True, url = None, error = None, result_id = None\<rparr>" "''''" None None
          example_db]
    by blast
  show ?thesis
    using h q example_dispatch passed refused by simp
qed

section \<open>The usage update\<close>





section \<open>The image path without an output URL\<close>

text \<open>
  C4, as the spec has it: an empty artifact list gives \<open>success = false\<close> with the message
  "no output produced". The result is a failure, but its message is the one the code
  throws and catches itself.
\<close>

theorem empty_artifact_list_message_counterexample:
  "snd (generateImage (Resolved \<lparr>data = []\<rparr>) 1700 (make_options example_props example_form))
     = Resolved \<lparr>success = False, url = None,
         error = Some ''No image URL returned from OpenAI'', result_id = None\<rparr>
   \<and> error \<lparr>success = False, url = None,
         error = Some ''No image URL returned from OpenAI'', result_id = None\<rparr>
       \<noteq> Some ''no output produced''"
  by code_simp

text \<open>
  C4, amended: whenever the provider answers and the first artifact has no URL (an empty
  list, a first artifact without \<open>url\<close>, or an empty \<open>url\<close>), \<open>generateImage\<close> returns
  \<open>success = false\<close> with the error message "No image URL returned from OpenAI".
\<close>

theorem no_url_is_failure:
  "\<not> truthy (first_url (data response)) \<longrightarrow>
     snd (generateImage (Resolved response) now options)
       = Resolved \<lparr>success = False, url = None,
           error = Some ''No image URL returned from OpenAI'', result_id = None\<rparr>"
  by (simp add: generateImage_def generateImage_try_def Let_def)

theorem no_url_is_failure_witness:
  "\<not> truthy (first_url (data \<lparr>data = [Image_obj None (Some ''a banner'')]\<rparr>))
   \<and> snd (generateImage (Resolved \<lparr>data = [Image_obj None (Some ''a banner'')]\<rparr>) 1700
            (make_options example_props example_form))
       = Resolved \<lparr>success = False, url = None,
           error = Some ''No image URL returned from OpenAI'', result_id = None\<rparr>"
  using no_url_is_failure [of "\<lparr>data = [Image_obj None (Some ''a banner'')]\<rparr>" 1700
      "make_options example_props example_form"]
  by simp

section \<open>The prompt optimizer validates nothing\<close>



section \<open>A failed dispatch writes nothing\<close>

text \<open>
  C6. When the dispatch returns a result with \<open>success = false\<close>, the flow leaves the store
  as it was (no content item, no change of any subscription row) and its trace has neither
  the content insert nor the usage update.
\<close>

theorem failed_dispatch_writes_nothing:
  "dispatch e (make_options p form) = (evs, Resolved r) \<and> \<not> success r \<longrightarrow>
     snd (onSubmit e p form d) = d
     \<and> \<not> list_ex is_content_insert (fst (onSubmit e p form d))
     \<and> \<not> list_ex is_usage_update (fst (onSubmit e p form d))"
  using dispatch_no_store_write [of e "make_options p form"]
  by (auto simp add: onSubmit_def onSubmit_try_def Let_def split: option.split)

theorem failed_dispatch_writes_nothing_witness:
  "dispatch (example_env\<lparr>images_reply := Resolved \<lparr>data = []\<rparr>\<rparr>)
       (make_options example_props example_form)
     = ([Images_generate ''dall-e-3''
           ''A modern tech startup banner with gradient. Style: photorealistic, high detail, professional photography. Platform: Instagram style, square format, visually appealing. Professional marketing content, high quality, brand appropriate.''
           ''1024x1024'' ''standard'' 1,
         Console_error ''OpenAI Image Generation Error:''],
        Resolved \<lparr>success = False, url = None,
          error = Some ''No image URL returned from OpenAI'', result_id = None\<rparr>)
   \<and> \<not> success \<lparr>success = False, url = None,
          error = Some ''No image URL returned from OpenAI'', result_id = None\<rparr>
   \<and> snd (onSubmit (example_env\<lparr>images_reply := Resolved \<lparr>data = []\<rparr>\<rparr>)
          example_props example_form example_db) = example_db
   \<and> \<not> list_ex is_content_insert
        (fst (onSubmit (example_env\<lparr>images_reply := Resolved \<lparr>data = []\<rparr>\<rparr>)
           example_props example_form example_db))
   \<and> \<not> list_ex is_usage_update
        (fst (onSubmit (example_env\<lparr>images_reply := Resolved \<lparr>data = []\<rparr>\<rparr>)
           example_props example_form example_db))"
proof -
  have d: "dispatch (example_env\<lparr>images_reply := Resolved \<lparr>data = []\<rparr>\<rparr>)
       (make_options example_props example_form)
     = ([Images_generate ''dall-e-3''
           ''A modern tech startup banner with gradient. Style: photorealistic, high detail, professional photography. Platform: Instagram style, square format, visually appealing. Professional marketing content, high quality, brand appropriate.''
           ''1024x1024'' ''standard'' 1,
         Console_error ''OpenAI Image Generation Error:''],
        Resolved \<lparr>success = False, url = None,
          error = Some ''No image URL returned from OpenAI'', result_id = None\<rparr>)"
    by code_simp
  show ?thesis
    using d failed_dispatch_writes_nothing
      [of "example_env\<lparr>images_reply := Resolved \<lparr>data = []\<rparr>\<rparr>" example_props example_form
          "[Images_generate ''dall-e-3''
           ''A modern tech startup banner with gradient. Style: photorealistic, high detail, professional photography. Platform: Instagram style, square format, visually appealing. Professional marketing content, high quality, brand appropriate.''
           ''1024x1024'' ''standard'' 1,
         Console_error ''OpenAI Image Generation Error:'']"
          "\<lparr>success = False, url = None,
          error = Some ''No image URL returned from OpenAI'', result_id = None\<rparr>" example_db]
    by simp
qed

section \<open>Errors are returned as data\<close>

lemma generateImage_resolves: "\<exists>r. snd (generateImage reply now options) = Resolved r"
  by (simp add: generateImage_def Let_def split: outcome.split)

lemma generateVideo_resolves: "\<exists>r. snd (generateVideo t1 t2 options) = Resolved r"
  by (simp add: generateVideo_def generateVideo_try_def)

lemma dispatch_resolves: "\<exists>evs r. dispatch e options = (evs, Resolved r)"
  using generateImage_resolves [of "images_reply e" "now_1 e" options]
    generateVideo_resolves [of "now_1 e" "now_2 e" options]
  by (cases "generateImage (images_reply e) (now_1 e) options";
      cases "generateVideo (now_1 e) (now_2 e) options") (auto simp add: dispatch_def)

text \<open>
  C7. When the provider call of the image path rejects with an error, \<open>generateImage\<close>
  resolves with \<open>success = false\<close> and an error message: the error's own message when it
  has a non-empty one, "Failed to generate image" otherwise. Whatever the provider does,
  \<open>generateImage\<close>, \<open>generateVideo\<close> and the two-way dispatch resolve with a result
  and never reject. (Nothing inside the video path can raise: its timer always resolves.)
\<close>

theorem provider_errors_returned_as_data:
  "snd (generateImage (Rejected err) now options)
     = Resolved \<lparr>success = False, url = None,
         error = Some (or_else (message err) ''Failed to generate image''), result_id = None\<rparr>
   \<and> (message err = Some m \<and> m \<noteq> [] \<longrightarrow>
        snd (generateImage (Rejected err) now options)
          = Resolved \<lparr>success = False, url = None, error = Some m, result_id = None\<rparr>)
   \<and> (message err = None \<or> message err = Some [] \<longrightarrow>
        snd (generateImage (Rejected err) now options)
          = Resolved \<lparr>success = False, url = None,
              error = Some ''Failed to generate image'', result_id = None\<rparr>)
   \<and> (\<exists>r. snd (generateImage reply now options) = Resolved r)
   \<and> (\<exists>r. snd (generateVideo t1 t2 options) = Resolved r)
   \<and> (\<exists>evs r. dispatch e options = (evs, Resolved r))"
proof -
  have caught: "snd (generateImage (Rejected err) now options)
     = Resolved \<lparr>success = False, url = None,
         error = Some (or_else (message err) ''Failed to generate image''), result_id = None\<rparr>"
    by (simp add: generateImage_def generateImage_try_def Let_def)
  show ?thesis
    using caught generateImage_resolves [of reply now options]
      generateVideo_resolves [of t1 t2 options] dispatch_resolves [of e options]
    by auto
qed

theorem provider_errors_returned_as_data_witness:
  "message (Error (Some ''Rate limit exceeded'')) = Some ''Rate limit exceeded''
   \<and> ''Rate limit exceeded'' \<noteq> []
   \<and> snd (generateImage (Rejected (Error (Some ''Rate limit exceeded''))) 1700
            (make_options example_props example_form))
       = Resolved \<lparr>success = False, url = None, error = Some ''Rate limit exceeded'',
           result_id = None\<rparr>
   \<and> message (Error None) = None
   \<and> snd (generateImage (Rejected (Error None)) 1700
            (make_options example_props example_form))
       = Resolved \<lparr>success = False, url = None, error = Some ''Failed to generate image'',
           result_id = None\<rparr>"
proof -
  have a: "snd (generateImage (Rejected (Error (Some ''Rate limit exceeded''))) 1700
            (make_options example_props example_form))
       = Resolved \<lparr>success = False, url = None, error = Some ''Rate limit exceeded'',
           result_id = None\<rparr>"
    using provider_errors_returned_as_data
      [of "Error (Some ''Rate limit exceeded'')" 1700 "make_options example_props example_form"
          "''Rate limit exceeded''"]
    by simp
  have b: "snd (generateImage (Rejected (Error None)) 1700
            (make_options example_props example_form))
       = Resolved \<lparr>success = False, url = None, error = Some ''Failed to generate image'',
           result_id = None\<rparr>"
    using provider_errors_returned_as_data
      [of "Error None" 1700 "make_options example_props example_form" "''''"]
    by simp
  show ?thesis
    using a b by simp
qed

section \<open>The rule-based prompt\<close>

text \<open>
  C8. For every style and platform of the two enumerated types, the optimized prompt
  contains the style's phrase and the platform's phrase and ends with
  "Professional marketing content, high quality, brand appropriate."; and it is a function
  of the prompt, the style and the platform alone: options that agree on style and
  platform give the same string.
\<close>

theorem optimize_rule_based:
  "sublist (stylePrompts (style options)) (optimizePrompt p options)
   \<and> sublist (platformPrompts (platform options)) (optimizePrompt p options)
   \<and> suffix ''Professional marketing content, high quality, brand appropriate.''
        (optimizePrompt p options)
   \<and> (style options = style options' \<and> platform options = platform options'
        \<longrightarrow> optimizePrompt p options = optimizePrompt p options')"
proof -
  have "sublist (stylePrompts (style options))
      ((p @ ''. Style: '') @ stylePrompts (style options) @ ''. Platform: ''
        @ platformPrompts (platform options) @ ''. '' @ marketing_suffix)"
    by (rule sublist_appendI)
  then have s: "sublist (stylePrompts (style options)) (optimizePrompt p options)"
    by (simp add: optimizePrompt_def)
  have "sublist (platformPrompts (platform options))
      ((p @ ''. Style: '' @ stylePrompts (style options) @ ''. Platform: '')
        @ platformPrompts (platform options) @ ''. '' @ marketing_suffix)"
    by (rule sublist_appendI)
  then have pl: "sublist (platformPrompts (platform options)) (optimizePrompt p options)"
    by (simp add: optimizePrompt_def)
  have "suffix marketing_suffix
      ((p @ ''. Style: '' @ stylePrompts (style options) @ ''. Platform: ''
         @ platformPrompts (platform options) @ ''. '') @ marketing_suffix)"
    by (rule suffixI) simp
  then have su: "suffix ''Professional marketing content, high quality, brand appropriate.''
        (optimizePrompt p options)"
    by (simp add: optimizePrompt_def marketing_suffix_def)
  show ?thesis
    using s pl su by (simp add: optimizePrompt_def)
qed

theorem optimize_rule_based_witness:
  "style \<lparr>prompt = ''A modern tech startup banner with gradient'', style = Realistic,
       platform = Instagram, type = Image_t, dimensions = None, brandKit = None\<rparr>
     = style \<lparr>prompt = ''other'', style = Realistic, platform = Instagram, type = Video_t,
         dimensions = Some (1024, 1024), brandKit = None\<rparr>
   \<and> platform \<lparr>prompt = ''A modern tech startup banner with gradient'', style = Realistic,
       platform = Instagram, type = Image_t, dimensions = None, brandKit = None\<rparr>
     = platform \<lparr>prompt = ''other'', style = Realistic, platform = Instagram, type = Video_t,
         dimensions = Some (1024, 1024), brandKit = None\<rparr>
   \<and> sublist ''photorealistic, high detail, professional photography''
       (optimizePrompt ''A modern tech startup banner with gradient''
          \<lparr>prompt = ''A modern tech startup banner with gradient'', style = Realistic,
           platform = Instagram, type = Image_t, dimensions = None, brandKit = None\<rparr>)
   \<and> sublist ''Instagram style, square format, visually appealing''
       (optimizePrompt ''A modern tech startup banner with gradient''
          \<lparr>prompt = ''A modern tech startup banner with gradient'', style = Realistic,
           platform = Instagram, type = Image_t, dimensions = None, brandKit = None\<rparr>)
   \<and> suffix ''Professional marketing content, high quality, brand appropriate.''
       (optimizePrompt ''A modern tech startup banner with gradient''
          \<lparr>prompt = ''A modern tech startup banner with gradient'', style = Realistic,
           platform = Instagram, type = Image_t, dimensions = None, brandKit = None\<rparr>)
   \<and> optimizePrompt ''A modern tech startup banner with gradient''
       \<lparr>prompt = ''A modern tech startup banner with gradient'', style = Realistic,
        platform = Instagram, type = Image_t, dimensions = None, brandKit = None\<rparr>
     = optimizePrompt ''A modern tech startup banner with gradient''
       \<lparr>prompt = ''other'', style = Realistic, platform = Instagram, type = Video_t,
        dimensions = Some (1024, 1024), brandKit = None\<rparr>"
proof -
  note t = optimize_rule_based
    [of "\<lparr>prompt = ''A modern tech startup banner with gradient'', style = Realistic,
          platform = Instagram, type = Image_t, dimensions = None, brandKit = None\<rparr>"
        "''A modern tech startup banner with gradient''"
        "\<lparr>prompt = ''other'', style = Realistic, platform = Instagram, type = Video_t,
          dimensions = Some (1024, 1024), brandKit = None\<rparr>"]
  from t [THEN conjunct1] have a: "sublist ''photorealistic, high detail, professional photography''
       (optimizePrompt ''A modern tech startup banner with gradient''
          \<lparr>prompt = ''A modern tech startup banner with gradient'', style = Realistic,
           platform = Instagram, type = Image_t, dimensions = None, brandKit = None\<rparr>)"
    by simp
  from t [THEN conjunct2, THEN conjunct1] have b: "sublist ''Instagram style, square format, visually appealing''
       (optimizePrompt ''A modern tech startup banner with gradient''
          \<lparr>prompt = ''A modern tech startup banner with gradient'', style = Realistic,
           platform = Instagram, type = Image_t, dimensions = None, brandKit = None\<rparr>)"
    by simp
  from t [THEN conjunct2, THEN conjunct2, THEN conjunct1] have c: "suffix ''Professional marketing content, high quality, brand appropriate.''
       (optimizePrompt ''A modern tech startup banner with gradient''
          \<lparr>prompt = ''A modern tech startup banner with gradient'', style = Realistic,
           platform = Instagram, type = Image_t, dimensions = None, brandKit = None\<rparr>)"
    by simp
  from t [THEN conjunct2, THEN conjunct2, THEN conjunct2] have d: "optimizePrompt ''A modern tech startup banner with gradient''
       \<lparr>prompt = ''A modern tech startup banner with gradient'', style = Realistic,
        platform = Instagram, type = Image_t, dimensions = None, brandKit = None\<rparr>
     = optimizePrompt ''A modern tech startup banner with gradient''
       \<lparr>prompt = ''other'', style = Realistic, platform = Instagram, type = Video_t,
        dimensions = Some (1024, 1024), brandKit = None\<rparr>"
    by simp
  show ?thesis
    by (intro conjI a b c d) simp_all
qed

section \<open>No subscription, no check\<close>

text \<open>
  C9. With a user signed in and no subscription at hand the usage check is false and the
  flow always makes its generation call. And whenever a signed-in user's flow makes no
  generation call, a subscription is at hand and its \<open>current_usage\<close> has reached its
  \<open>usage_limit\<close>.
\<close>

theorem absent_subscription_skips_quota_check:
  "\<not> quota_reached None
   \<and> list_ex is_generation_call
       (fst (onSubmit e \<lparr>user = Some u, subscription = None, optimizedPrompt = op\<rparr> form d))
   \<and> (user p = Some u \<and> \<not> list_ex is_generation_call (fst (onSubmit e p form d))
        \<longrightarrow> (\<exists>q. subscription p = Some q \<and> current_usage q \<ge> usage_limit q))"
  using onSubmit_try_calls [of e "\<lparr>user = Some u, subscription = None, optimizedPrompt = op\<rparr>" u form d]
    onSubmit_try_calls [of e p u form d]
  by (auto simp add: onSubmit_def quota_reached_def split: prod.split option.split)

theorem absent_subscription_skips_quota_check_witness:
  "user (example_props\<lparr>subscription := Some \<lparr>user_id = ''u1'', usage_limit = 10, current_usage = 10\<rparr>\<rparr>)
      = Some example_user
   \<and> \<not> list_ex is_generation_call
        (fst (onSubmit example_env
           (example_props\<lparr>subscription := Some \<lparr>user_id = ''u1'', usage_limit = 10, current_usage = 10\<rparr>\<rparr>)
           example_form example_db))
   \<and> (\<exists>q. subscription (example_props\<lparr>subscription := Some \<lparr>user_id = ''u1'', usage_limit = 10, current_usage = 10\<rparr>\<rparr>) = Some q
          \<and> current_usage q \<ge> usage_limit q)"
proof -
  have h: "\<not> list_ex is_generation_call
        (fst (onSubmit example_env
           (example_props\<lparr>subscription := Some \<lparr>user_id = ''u1'', usage_limit = 10, current_usage = 10\<rparr>\<rparr>)
           example_form example_db))"
    by (simp add: onSubmit_def example_props_def quota_reached_def)
  show ?thesis
    using h absent_subscription_skips_quota_check
      [of example_env example_user "''''" example_form example_db
        "example_props\<lparr>subscription := Some \<lparr>user_id = ''u1'', usage_limit = 10, current_usage = 10\<rparr>\<rparr>"]
    by (simp add: example_props_def)
qed


section \<open>The video path\<close>







end
